theory Spec2Isabelle
  imports Complex_Main
begin

section \<open>Python values\<close>

text \<open>
  The script \<^verbatim>\<open>qa.py\<close> is a Streamlit page around a Hugging Face question-answering
  pipeline. Its two functions, \<^verbatim>\<open>load_qa_model\<close> and \<^verbatim>\<open>main\<close>, are embedded below.
  Python strings are \<open>string\<close>s holding the UTF-8 bytes of the text, so a character outside
  ASCII is written as its bytes; the only property of a string the script inspects is
  whether it is empty, which the encoding keeps.
\<close>

text \<open>
  An instance of a subclass of \<^verbatim>\<open>Exception\<close>: its class name and the text \<^verbatim>\<open>str(e)\<close>
  that an f-string renders. Signals below \<^verbatim>\<open>BaseException\<close> only (\<^verbatim>\<open>KeyboardInterrupt\<close>,
  \<^verbatim>\<open>SystemExit\<close>), which \<^verbatim>\<open>except Exception\<close> lets through, are not failures of a call
  and are left out.
\<close>

datatype exn = Exn (exn_class: string) (exn_str: string)

text \<open>
  A Python float: a finite value, negative zero, the infinities, or NaN. \<open>Fin x\<close> stands for
  the double whose value is \<open>x\<close>.
\<close>

datatype pyfloat = Fin real | NegZero | PosInf | NegInf | NaN

text \<open>The values a result dictionary of the pipeline may hold.\<close>

datatype pyval = PyNone | PyInt int | PyFloat pyfloat | PyStr string

text \<open>IEEE 754 ordering of floats, Python's \<^verbatim>\<open><\<close>: NaN compares false with everything.\<close>

fun float_less :: "pyfloat \<Rightarrow> pyfloat \<Rightarrow> bool" where
  "float_less NaN b = False"
| "float_less a NaN = False"
| "float_less PosInf b = False"
| "float_less NegInf NegInf = False"
| "float_less NegInf b = True"
| "float_less a NegInf = False"
| "float_less a PosInf = True"
| "float_less (Fin x) (Fin y) = (x < y)"
| "float_less (Fin x) NegZero = (x < 0)"
| "float_less NegZero (Fin y) = (0 < y)"
| "float_less NegZero NegZero = False"

definition quoted :: "string \<Rightarrow> string" where
  "quoted s = [CHR 0x27] @ s @ [CHR 0x27]"

text \<open>
  \<^verbatim>\<open>v < f\<close> for a float \<open>f\<close>: an int is compared with a float by value, a string or
  \<^verbatim>\<open>None\<close> raises \<^verbatim>\<open>TypeError\<close>.
\<close>

fun py_lt_float :: "pyval \<Rightarrow> pyfloat \<Rightarrow> exn + bool" where
  "py_lt_float (PyFloat a) f = Inr (float_less a f)"
| "py_lt_float (PyInt n) f = Inr (float_less (Fin (of_int n)) f)"
| "py_lt_float (PyStr s) f = Inl (Exn ''TypeError''
     (quoted ''<'' @ '' not supported between instances of '' @ quoted ''str'' @ '' and '' @ quoted ''float''))"
| "py_lt_float PyNone f = Inl (Exn ''TypeError''
     (quoted ''<'' @ '' not supported between instances of '' @ quoted ''NoneType'' @ '' and '' @ quoted ''float''))"

text \<open>\<^verbatim>\<open>d[k]\<close> on a dictionary: \<^verbatim>\<open>KeyError\<close> when the key is missing.\<close>

definition getitem :: "(string \<rightharpoonup> pyval) \<Rightarrow> string \<Rightarrow> exn + pyval" where
  "getitem d k = (case d k of None \<Rightarrow> Inl (Exn ''KeyError'' (quoted k)) | Some v \<Rightarrow> Inr v)"

text \<open>\<^verbatim>\<open>d.get(k, default)\<close>: never raises.\<close>

definition get_default :: "(string \<rightharpoonup> pyval) \<Rightarrow> string \<Rightarrow> pyval \<Rightarrow> pyval" where
  "get_default d k dflt = (case d k of None \<Rightarrow> dflt | Some v \<Rightarrow> v)"

section \<open>The world outside the script\<close>

text \<open>
  A loaded pipeline is a callable taking the question and the context and returning a
  result dictionary, or raising.
\<close>

type_synonym qa_model = "string \<Rightarrow> string \<Rightarrow> exn + (string \<rightharpoonup> pyval)"

text \<open>
  Everything one run of the script reads from outside:
  \<^item> \<open>pipeline task model\<close> is \<^verbatim>\<open>transformers.pipeline(task, model=model)\<close>;
  \<^item> \<open>float_percent\<close> is the interpreter's \<^verbatim>\<open>format(x, '.2%')\<close> on a float, which always
    returns a string, and \<open>int_percent\<close> the same on an int, which raises
    \<^verbatim>\<open>OverflowError\<close> when the int is too large for a float (it is consulted for
    large ints only, see \<open>format_percent\<close>);
  \<^item> \<open>text_area\<close>, \<open>text_input\<close> and \<open>button\<close> are the values the three widgets
    return in this run.
\<close>

record world =
  pipeline :: "string \<Rightarrow> string \<Rightarrow> exn + qa_model"
  float_percent :: "pyfloat \<Rightarrow> string"
  int_percent :: "int \<Rightarrow> exn + string"
  text_area :: string
  text_input :: string
  button :: bool

text \<open>The decimal digits of a natural number, as \<^verbatim>\<open>str\<close> prints them.\<close>

definition digit :: "nat \<Rightarrow> char" where
  "digit d = ''0123456789'' ! d"

fun decimal :: "nat \<Rightarrow> string" where
  "decimal n = (if n < 10 then [digit n] else decimal (n div 10) @ [digit (n mod 10)])"

declare decimal.simps [simp del]

text \<open>
  \<^verbatim>\<open>format(n, '.2%')\<close> on an int \<open>n\<close> converts \<open>n\<close> to a float, multiplies it by 100 and
  prints the product with two decimals and a percent sign. While \<open>100 * n\<close> is at most
  \<open>2 ^ 53\<close> in absolute value, the conversion and the product are exact, and the text is
  the integer \<open>100 * n\<close> followed by \<^verbatim>\<open>.00%\<close>.
\<close>

definition small_int_percent :: "int \<Rightarrow> string" where
  "small_int_percent n =
     (if n < 0 then ''-'' else []) @ decimal (nat (\<bar>n\<bar> * 100)) @ ''.00%''"

text \<open>
  \<^verbatim>\<open>f"{v:.2%}"\<close>: a float and a large int are rendered by the interpreter, a small int
  as above, and other values raise.
\<close>

fun format_percent :: "world \<Rightarrow> pyval \<Rightarrow> exn + string" where
  "format_percent w (PyFloat x) = Inr (float_percent w x)"
| "format_percent w (PyInt n) =
     (if \<bar>n\<bar> * 100 \<le> 2 ^ 53 then Inr (small_int_percent n) else int_percent w n)"
| "format_percent w (PyStr s) = Inl (Exn ''ValueError''
     (''Unknown format code '' @ quoted ''%'' @ '' for object of type '' @ quoted ''str''))"
| "format_percent w PyNone = Inl (Exn ''TypeError''
     ''unsupported format string passed to NoneType.__format__'')"

section \<open>The rendered page\<close>

text \<open>
  What a run does, in order: each Streamlit call adds an element to the page, and the two
  calls into the transformers library are recorded in the same trace.
\<close>

datatype event =
    SetPageConfig string
  | Title string
  | Error string
  | SidebarHeader string
  | SidebarInfo string
  | Header string
  | TextArea string string nat
  | TextInput string string
  | Button string string
  | Subheader string
  | Success pyval
  | Metric string string
  | Warning string
  | Markdown string
  | LoadPipeline string string
  | CallModel string string

type_synonym page = "event list"

text \<open>A run ends at the last line of \<^verbatim>\<open>main\<close> or is halted by \<^verbatim>\<open>st.stop()\<close>.\<close>

datatype outcome = Finished | Stopped

definition title_text :: string where
  "title_text = [CHR 0xF0, CHR 0x9F, CHR 0xA4, CHR 0x96] @ '' Question Answering Assistant''"

definition sidebar_info_text :: string where
  "sidebar_info_text =
     [CHR 0x0A] @ ''    1. Enter a context paragraph in the text area'' @
     [CHR 0x0A] @ ''    2. Ask a specific question about the context'' @
     [CHR 0x0A] @ ''    3. Click '' @ quoted ''Get Answer'' @ '' to see the results'' @
     [CHR 0x0A] @ ''    ''"

definition context_header :: string where
  "context_header = [CHR 0xF0, CHR 0x9F, CHR 0x93, CHR 0x9D] @ '' Context''"

definition default_context :: string where
  "default_context =
     ''Albert Einstein was a renowned physicist who developed the theory of relativity. '' @
     ''Born in Germany in 1879, he is best known for his mass-energy equivalence formula E = mc'' @
     [CHR 0xC2, CHR 0xB2] @ ''. '' @
     ''Einstein won the Nobel Prize in Physics in 1921 for his services to theoretical physics.''"

definition question_header :: string where
  "question_header = [CHR 0xE2, CHR 0x9D, CHR 0x93] @ '' Your Question''"

definition button_label :: string where
  "button_label = [CHR 0xF0, CHR 0x9F, CHR 0x94, CHR 0x8D] @ '' Get Answer''"

definition answer_subheader :: string where
  "answer_subheader = [CHR 0xF0, CHR 0x9F, CHR 0x93, CHR 0x8C] @ '' Answer:''"

definition low_confidence_warning :: string where
  "low_confidence_warning =
     ''The confidence is relatively low. The answer might not be entirely accurate.''"

definition provide_both_warning :: string where
  "provide_both_warning = ''Please provide both a context and a question.''"

definition load_failed_error :: string where
  "load_failed_error =
     ''Failed to load the Question Answering model. Please check your installation.''"

definition footer_text :: string where
  "footer_text =
     ''*Presented to you  by Shamitha Reddy N and Team (Powered by Hugging Face Transformers*)''"

section \<open>The script\<close>

text \<open>
  \<^verbatim>\<open>load_qa_model\<close> (lines 4 to 25): the pipeline, or an error on the page and
  \<^verbatim>\<open>None\<close> when the constructor raises.
\<close>

definition load_qa_model :: "world \<Rightarrow> page \<Rightarrow> page \<times> qa_model option" where
  "load_qa_model w s =
     (let s = s @ [LoadPipeline ''question-answering'' ''deepset/bert-base-cased-squad2'']
      in case pipeline w ''question-answering'' ''deepset/bert-base-cased-squad2'' of
           Inr qa_pipeline \<Rightarrow> (s, Some qa_pipeline)
         | Inl e \<Rightarrow> (s @ [Error (''Error loading model: '' @ exn_str e)], None))"

text \<open>
  The body of the \<^verbatim>\<open>try\<close> (lines 73 to 85). What was put on the page before an exception
  stays there.
\<close>

definition try_body :: "world \<Rightarrow> qa_model \<Rightarrow> string \<Rightarrow> string \<Rightarrow> page \<Rightarrow> page \<times> (exn + unit)" where
  "try_body w qa_pipeline context question s =
     (let s = s @ [CallModel question context]
      in case qa_pipeline question context of
           Inl e \<Rightarrow> (s, Inl e)
         | Inr result \<Rightarrow>
            (let s = s @ [Subheader answer_subheader]
             in case getitem result ''answer'' of
                  Inl e \<Rightarrow> (s, Inl e)
                | Inr answer \<Rightarrow>
                   (let s = s @ [Success answer];
                        confidence = get_default result ''score'' (PyInt 0)
                    in case format_percent w confidence of
                         Inl e \<Rightarrow> (s, Inl e)
                       | Inr txt \<Rightarrow>
                          (let s = s @ [Metric ''Confidence'' txt]
                           in case py_lt_float confidence (Fin (1 / 2)) of
                                Inl e \<Rightarrow> (s, Inl e)
                              | Inr low \<Rightarrow>
                                 (if low then (s @ [Warning low_confidence_warning], Inr ())
                                  else (s, Inr ()))))))"

text \<open>
  The block under \<^verbatim>\<open>if st.button(...)\<close> (lines 70 to 92). A string is true when it is
  not empty.
\<close>

definition on_button :: "world \<Rightarrow> qa_model \<Rightarrow> string \<Rightarrow> string \<Rightarrow> page \<Rightarrow> page" where
  "on_button w qa_pipeline context question s =
     (if context \<noteq> [] \<and> question \<noteq> [] then
        (case try_body w qa_pipeline context question s of
           (s, Inr u) \<Rightarrow> s
         | (s, Inl e) \<Rightarrow> s @ [Error (''Error processing your question: '' @ exn_str e)])
      else s @ [Warning provide_both_warning])"

text \<open>\<^verbatim>\<open>main\<close> (lines 27 to 96): one run of the script.\<close>

definition main :: "world \<Rightarrow> page \<times> outcome" where
  "main w =
     (let s = [SetPageConfig ''Question Answering System''];
          s = s @ [Title title_text];
          (s, qa_pipeline) = load_qa_model w s
      in case qa_pipeline of
           None \<Rightarrow> (s @ [Error load_failed_error], Stopped)
         | Some qa_pipeline \<Rightarrow>
            (let s = s @ [SidebarHeader ''How to Use''];
                 s = s @ [SidebarInfo sidebar_info_text];
                 s = s @ [Header context_header];
                 s = s @ [TextArea ''Enter your context paragraph:'' default_context 200];
                 context = text_area w;
                 s = s @ [Header question_header];
                 s = s @ [TextInput ''What would you like to know?''
                            ''E.g., When did Einstein win the Nobel Prize?''];
                 question = text_input w;
                 s = s @ [Button button_label ''primary''];
                 s = (if button w then on_button w qa_pipeline context question s else s);
                 s = s @ [Markdown ''---''];
                 s = s @ [Markdown footer_text]
             in (s, Finished)))"

section \<open>Reading a page\<close>

text \<open>The input widgets and the button: what a user can act on.\<close>

fun is_widget :: "event \<Rightarrow> bool" where
  "is_widget (TextArea l v h) = True"
| "is_widget (TextInput l p) = True"
| "is_widget (Button l t) = True"
| "is_widget ev = False"

text \<open>A call of the loaded pipeline.\<close>

fun is_call :: "event \<Rightarrow> bool" where
  "is_call (CallModel q c) = True"
| "is_call ev = False"

fun is_metric :: "event \<Rightarrow> bool" where
  "is_metric (Metric l v) = True"
| "is_metric ev = False"

fun is_error :: "event \<Rightarrow> bool" where
  "is_error (Error m) = True"
| "is_error ev = False"

text \<open>What only the block under the button puts on the page.\<close>

fun is_handler_output :: "event \<Rightarrow> bool" where
  "is_handler_output (CallModel q c) = True"
| "is_handler_output (Subheader t) = True"
| "is_handler_output (Success v) = True"
| "is_handler_output (Metric l v) = True"
| "is_handler_output (Warning m) = True"
| "is_handler_output ev = False"

text \<open>The page down to the button, when the model has loaded, and the footer.\<close>

definition form :: page where
  "form =
     [SetPageConfig ''Question Answering System'',
      Title title_text,
      LoadPipeline ''question-answering'' ''deepset/bert-base-cased-squad2'',
      SidebarHeader ''How to Use'',
      SidebarInfo sidebar_info_text,
      Header context_header,
      TextArea ''Enter your context paragraph:'' default_context 200,
      Header question_header,
      TextInput ''What would you like to know?'' ''E.g., When did Einstein win the Nobel Prize?'',
      Button button_label ''primary'']"

definition footer :: page where
  "footer = [Markdown ''---'', Markdown footer_text]"

text \<open>
  \<^verbatim>\<open>s.isspace()\<close> on ASCII text: the string is not empty and holds only spaces, tabs,
  line feeds, vertical tabs, form feeds and carriage returns.
\<close>

definition whitespace :: "char list" where
  "whitespace = [CHR 0x20, CHR 0x09, CHR 0x0A, CHR 0x0B, CHR 0x0C, CHR 0x0D]"

definition isspace :: "string \<Rightarrow> bool" where
  "isspace s = (s \<noteq> [] \<and> list_all (\<lambda>c. c \<in> set whitespace) s)"

section \<open>Sample runs\<close>

text \<open>
  Concrete worlds on which the theorems below are exercised: a result dictionary with the
  answer \<^verbatim>\<open>1921\<close>, a pipeline that returns it, one that raises, and a run with the button
  pressed.
\<close>

definition sample_result :: "pyfloat \<Rightarrow> (string \<rightharpoonup> pyval)" where
  "sample_result c = [''answer'' \<mapsto> PyStr ''1921'', ''score'' \<mapsto> PyFloat c]"

definition returning :: "(string \<rightharpoonup> pyval) \<Rightarrow> qa_model" where
  "returning r question context = Inr r"

definition raising :: "exn \<Rightarrow> qa_model" where
  "raising e question context = Inl e"

definition sample_percent :: "pyfloat \<Rightarrow> string" where
  "sample_percent x =
     (if x = Fin (97 / 100) then ''97.00%'' else if x = Fin (3 / 10) then ''30.00%''
      else ''nan%'')"

definition pressed :: "exn + qa_model \<Rightarrow> string \<Rightarrow> string \<Rightarrow> world" where
  "pressed p context question =
     \<lparr>pipeline = (\<lambda>task model. p),
      float_percent = sample_percent,
      int_percent = (\<lambda>n. Inl (Exn ''OverflowError'' ''int too large to convert to float'')),
      text_area = context,
      text_input = question,
      button = True\<rparr>"

definition sample_question :: string where
  "sample_question = ''When did Einstein win the Nobel Prize?''"

section \<open>How a run unfolds\<close>

text \<open>
  The two ways through \<^verbatim>\<open>main\<close>: the constructor raises and the run is halted after the
  two error messages, or the model loads, the form is rendered, the block under the button
  runs when the button is pressed, and the footer closes the page.
\<close>

lemma main_load_failed:
  assumes "pipeline w ''question-answering'' ''deepset/bert-base-cased-squad2'' = Inl e"
  shows "main w =
    ([SetPageConfig ''Question Answering System'', Title title_text,
      LoadPipeline ''question-answering'' ''deepset/bert-base-cased-squad2'',
      Error (''Error loading model: '' @ exn_str e), Error load_failed_error], Stopped)"
  using assms by (simp add: main_def load_qa_model_def)

lemma main_loaded:
  assumes "pipeline w ''question-answering'' ''deepset/bert-base-cased-squad2'' = Inr qa"
  shows "main w =
    ((if button w then on_button w qa (text_area w) (text_input w) form else form) @ footer,
     Finished)"
  using assms by (simp add: main_def load_qa_model_def form_def footer_def)

text \<open>
  The paths through the block under the button, each as what it appends to the page: a
  missing input, a pipeline call that raises, and a result with an answer and a float
  score.
\<close>

lemma on_button_empty:
  assumes "context = [] \<or> question = []"
  shows "on_button w qa context question s = s @ [Warning provide_both_warning]"
  using assms by (auto simp add: on_button_def)

lemma on_button_raise:
  assumes "context \<noteq> []" and "question \<noteq> []" and "qa question context = Inl e"
  shows "on_button w qa context question s =
     s @ [CallModel question context, Error (''Error processing your question: '' @ exn_str e)]"
  using assms by (simp add: on_button_def try_body_def)

lemma on_button_float:
  assumes "context \<noteq> []" and "question \<noteq> []" and "qa question context = Inr result"
    and "result ''answer'' = Some a" and "result ''score'' = Some (PyFloat c)"
  shows "on_button w qa context question s =
     s @ [CallModel question context, Subheader answer_subheader, Success a,
          Metric ''Confidence'' (float_percent w c)] @
         (if float_less c (Fin (1 / 2)) then [Warning low_confidence_warning] else [])"
  using assms by (simp add: on_button_def try_body_def getitem_def get_default_def)

text \<open>With both inputs given, every path calls the pipeline once, first of all.\<close>

lemma on_button_calls:
  assumes "context \<noteq> []" and "question \<noteq> []"
  shows "filter is_call (on_button w qa context question s) =
     filter is_call s @ [CallModel question context]"
  using assms by (simp add: on_button_def try_body_def Let_def split: sum.splits prod.splits)

text \<open>What the form and the footer hold.\<close>

lemma form_facts:
  "filter is_call form = []"
  "filter is_widget form =
     [TextArea ''Enter your context paragraph:'' default_context 200,
      TextInput ''What would you like to know?'' ''E.g., When did Einstein win the Nobel Prize?'',
      Button button_label ''primary'']"
  "filter is_metric form = []"
  "filter is_error form = []"
  "filter is_handler_output form = []"
  by (simp_all add: form_def)

lemma footer_facts:
  "filter is_call footer = []"
  "filter is_widget footer = []"
  "filter is_metric footer = []"
  "filter is_error footer = []"
  "filter is_handler_output footer = []"
  by (simp_all add: footer_def)

text \<open>
  Properties of every path with both inputs given: the warning for a missing input is
  not added, the path ends with the answer and the metric shown or with the error message,
  and an exception anywhere in the \<^verbatim>\<open>try\<close> is reported under what was shown before it.
\<close>

lemma on_button_no_provide_warning:
  assumes "context \<noteq> []" and "question \<noteq> []"
    and "Warning provide_both_warning \<notin> set s"
  shows "Warning provide_both_warning \<notin> set (on_button w qa context question s)"
  using assms
  by (simp add: on_button_def try_body_def Let_def low_confidence_warning_def
      provide_both_warning_def split: sum.splits prod.splits)

lemma on_button_visible:
  assumes "context \<noteq> []" and "question \<noteq> []"
  shows "(\<exists>a txt. Success a \<in> set (on_button w qa context question s) \<and>
            Metric ''Confidence'' txt \<in> set (on_button w qa context question s)) \<or>
         (\<exists>e. Error (''Error processing your question: '' @ exn_str e)
            \<in> set (on_button w qa context question s))"
  using assms
  by (auto simp add: on_button_def try_body_def Let_def split: sum.splits prod.splits)

lemma on_button_try_raise:
  assumes "context \<noteq> []" and "question \<noteq> []"
    and "try_body w qa context question s = (s', Inl e)"
  shows "on_button w qa context question s =
     s' @ [Error (''Error processing your question: '' @ exn_str e)]"
  using assms by (simp add: on_button_def)

text \<open>
  The metric: with an answer and a score that the percent format renders, exactly one
  metric is added. The default score 0 is rendered \<^verbatim>\<open>0.00%\<close>.
\<close>

lemma on_button_score:
  assumes "context \<noteq> []" and "question \<noteq> []" and "qa question context = Inr result"
    and "result ''answer'' = Some a" and "result ''score'' = Some v"
    and "format_percent w v = Inr txt"
  shows "filter is_metric (on_button w qa context question s) =
     filter is_metric s @ [Metric ''Confidence'' txt]"
  using assms
  by (cases v)
    (auto simp add: on_button_def try_body_def getitem_def get_default_def Let_def
      split: if_splits)

lemma zero_percent: "small_int_percent 0 = ''0.00%''"
  by (simp add: small_int_percent_def decimal.simps digit_def)

lemma on_button_no_score:
  assumes "context \<noteq> []" and "question \<noteq> []" and "qa question context = Inr result"
    and "result ''answer'' = Some a" and "result ''score'' = None"
  shows "on_button w qa context question s =
     s @ [CallModel question context, Subheader answer_subheader, Success a,
          Metric ''Confidence'' ''0.00%'', Warning low_confidence_warning]"
  using assms
  by (simp add: on_button_def try_body_def getitem_def get_default_def zero_percent)

text \<open>The definitions of the sample runs, for evaluating them.\<close>

lemmas sample_defs = pressed_def returning_def raising_def sample_result_def
  default_context_def sample_question_def sample_percent_def

section \<open>The claims\<close>

text \<open>
  In the theorems below a button press is a run in which the model has loaded (only then
  does the script reach the button) and \<^verbatim>\<open>st.button\<close> returns true; the context is the
  value of the text area and the question the value of the text input.
\<close>

text \<open>
  Claim C1. When the pipeline returns a result whose score is the float \<open>c\<close>, the
  low-confidence warning is on the page exactly when \<open>c < 0.5\<close> in the ordering of floats;
  for a finite \<open>c\<close> of value \<open>x\<close> that is \<open>x < 1 / 2\<close>, so the warning is shown below one
  half and absent from one half on.
\<close>

theorem low_confidence_warning_iff:
  assumes "pipeline w ''question-answering'' ''deepset/bert-base-cased-squad2'' = Inr qa"
    and "button w" and "text_area w \<noteq> []" and "text_input w \<noteq> []"
    and "qa (text_input w) (text_area w) = Inr result"
    and "result ''answer'' = Some a" and "result ''score'' = Some (PyFloat c)"
  shows "(Warning low_confidence_warning \<in> set (fst (main w))) = float_less c (Fin (1 / 2)) \<and>
         (\<forall>x. c = Fin x \<longrightarrow>
            (Warning low_confidence_warning \<in> set (fst (main w))) = (x < 1 / 2))"
proof -
  have page: "fst (main w) =
      form @ [CallModel (text_input w) (text_area w), Subheader answer_subheader, Success a,
              Metric ''Confidence'' (float_percent w c)] @
      (if float_less c (Fin (1 / 2)) then [Warning low_confidence_warning] else []) @ footer"
    using assms by (simp add: main_loaded on_button_float)
  have "Warning low_confidence_warning \<notin> set form"
    by (simp add: form_def)
  moreover have "Warning low_confidence_warning \<notin> set footer"
    by (simp add: footer_def)
  ultimately have "(Warning low_confidence_warning \<in> set (fst (main w))) =
      float_less c (Fin (1 / 2))"
    by (simp add: page)
  then show ?thesis by auto
qed

text \<open>A score of 0.3 gives the warning, a score of 0.97 does not.\<close>

theorem low_confidence_warning_iff_witness:
  "Warning low_confidence_warning \<in> set (fst (main
      (pressed (Inr (returning (sample_result (Fin (3 / 10))))) default_context sample_question))) \<and>
   Warning low_confidence_warning \<notin> set (fst (main
      (pressed (Inr (returning (sample_result (Fin (97 / 100))))) default_context sample_question)))"
  using low_confidence_warning_iff
      [of "pressed (Inr (returning (sample_result (Fin (3 / 10))))) default_context sample_question"
          "returning (sample_result (Fin (3 / 10)))" "sample_result (Fin (3 / 10))"
          "PyStr ''1921''" "Fin (3 / 10)"]
    low_confidence_warning_iff
      [of "pressed (Inr (returning (sample_result (Fin (97 / 100))))) default_context sample_question"
          "returning (sample_result (Fin (97 / 100)))" "sample_result (Fin (97 / 100))"
          "PyStr ''1921''" "Fin (97 / 100)"]
  by (simp add: sample_defs)

text \<open>
  Claim C2. On a button press with an empty context or an empty question, the page
  shows the warning that asks for both, the handler puts nothing else on the page, and
  the pipeline is not called.
\<close>

theorem empty_input_warns_without_call:
  assumes "pipeline w ''question-answering'' ''deepset/bert-base-cased-squad2'' = Inr qa"
    and "button w" and "text_area w = [] \<or> text_input w = []"
  shows "Warning provide_both_warning \<in> set (fst (main w)) \<and>
         filter is_call (fst (main w)) = [] \<and>
         filter is_handler_output (fst (main w)) = [Warning provide_both_warning] \<and>
         filter is_error (fst (main w)) = []"
proof -
  have "fst (main w) = form @ [Warning provide_both_warning] @ footer"
    using assms by (simp add: main_loaded on_button_empty)
  then show ?thesis
    by (simp add: form_facts footer_facts)
qed

text \<open>An empty question over the default context: the warning, and no call.\<close>

theorem empty_input_warns_without_call_witness:
  "Warning provide_both_warning \<in> set (fst (main
      (pressed (Inr (returning (sample_result (Fin (97 / 100))))) default_context []))) \<and>
   filter is_call (fst (main
      (pressed (Inr (returning (sample_result (Fin (97 / 100))))) default_context []))) = []"
  using empty_input_warns_without_call
      [of "pressed (Inr (returning (sample_result (Fin (97 / 100))))) default_context []"
          "returning (sample_result (Fin (97 / 100)))"]
  by (simp add: sample_defs)

text \<open>
  Claim C3. When the pipeline constructor raises, \<^verbatim>\<open>load_qa_model\<close> returns \<^verbatim>\<open>None\<close> and
  the run is halted by \<^verbatim>\<open>st.stop()\<close>: the page holds the title and two error messages,
  no input widget or button is rendered, and nothing of the button handler runs.
\<close>

theorem load_failure_halts:
  assumes "pipeline w ''question-answering'' ''deepset/bert-base-cased-squad2'' = Inl e"
  shows "snd (load_qa_model w s) = None \<and>
         main w =
           ([SetPageConfig ''Question Answering System'', Title title_text,
             LoadPipeline ''question-answering'' ''deepset/bert-base-cased-squad2'',
             Error (''Error loading model: '' @ exn_str e), Error load_failed_error], Stopped) \<and>
         filter is_widget (fst (main w)) = [] \<and>
         filter is_handler_output (fst (main w)) = []"
  using assms by (simp add: main_load_failed load_qa_model_def)

text \<open>The constructor fails for lack of a network, with the button reported pressed.\<close>

theorem load_failure_halts_witness:
  "snd (main (pressed (Inl (Exn ''OSError'' ''no network'')) default_context sample_question))
     = Stopped \<and>
   filter is_widget
     (fst (main (pressed (Inl (Exn ''OSError'' ''no network'')) default_context sample_question)))
     = []"
  using load_failure_halts
      [of "pressed (Inl (Exn ''OSError'' ''no network'')) default_context sample_question"
          "Exn ''OSError'' ''no network''"]
  by (simp add: sample_defs)

text \<open>
  Claim C4. On a button press with a non-empty context and a non-empty question the
  pipeline is called exactly once, with that question and that context.
\<close>

theorem model_called_exactly_once:
  assumes "pipeline w ''question-answering'' ''deepset/bert-base-cased-squad2'' = Inr qa"
    and "button w" and "text_area w \<noteq> []" and "text_input w \<noteq> []"
  shows "filter is_call (fst (main w)) = [CallModel (text_input w) (text_area w)]"
  using assms by (simp add: main_loaded on_button_calls form_facts footer_facts)

theorem model_called_exactly_once_witness:
  "filter is_call (fst (main
      (pressed (Inr (returning (sample_result (Fin (97 / 100))))) default_context sample_question)))
   = [CallModel sample_question default_context]"
  using model_called_exactly_once
      [of "pressed (Inr (returning (sample_result (Fin (97 / 100))))) default_context sample_question"
          "returning (sample_result (Fin (97 / 100)))"]
  by (simp add: sample_defs)

text \<open>
  Claim C5. On a button press with a non-empty context and a non-empty question the page
  shows the answer and a confidence metric, or it shows the error message of the handler:
  no path through the handler leaves the page without one of the two.
\<close>

theorem press_is_never_silent:
  assumes "pipeline w ''question-answering'' ''deepset/bert-base-cased-squad2'' = Inr qa"
    and "button w" and "text_area w \<noteq> []" and "text_input w \<noteq> []"
  shows "(\<exists>a txt. Success a \<in> set (fst (main w)) \<and>
            Metric ''Confidence'' txt \<in> set (fst (main w))) \<or>
         (\<exists>e. Error (''Error processing your question: '' @ exn_str e) \<in> set (fst (main w)))"
proof -
  have page: "fst (main w) = on_button w qa (text_area w) (text_input w) form @ footer"
    using assms by (simp add: main_loaded)
  from on_button_visible [OF assms(3) assms(4), of w qa form]
  show ?thesis
    unfolding page by auto
qed

text \<open>A result without an answer: the page shows the error of the missing key.\<close>

theorem press_is_never_silent_witness:
  "(\<exists>a txt. Success a \<in> set (fst (main
        (pressed (Inr (returning Map.empty)) default_context sample_question))) \<and>
      Metric ''Confidence'' txt \<in> set (fst (main
        (pressed (Inr (returning Map.empty)) default_context sample_question)))) \<or>
   (\<exists>e. Error (''Error processing your question: '' @ exn_str e) \<in> set (fst (main
        (pressed (Inr (returning Map.empty)) default_context sample_question))))"
  using press_is_never_silent
      [of "pressed (Inr (returning Map.empty)) default_context sample_question"
          "returning Map.empty"]
  by (simp add: sample_defs)

text \<open>
  Claim C6. When the call of the pipeline raises an exception, the handler catches it and
  shows the error message with the text of the exception under the button; the run is not
  halted: it goes on to the footer and ends normally, with the text area, the text input
  and the button on the page for the next interaction.
\<close>

theorem extraction_failure_is_inline:
  assumes "pipeline w ''question-answering'' ''deepset/bert-base-cased-squad2'' = Inr qa"
    and "button w" and "text_area w \<noteq> []" and "text_input w \<noteq> []"
    and "qa (text_input w) (text_area w) = Inl e"
  shows "main w =
           (form @ [CallModel (text_input w) (text_area w),
                    Error (''Error processing your question: '' @ exn_str e)] @ footer,
            Finished) \<and>
         filter is_widget (fst (main w)) =
           [TextArea ''Enter your context paragraph:'' default_context 200,
            TextInput ''What would you like to know?''
              ''E.g., When did Einstein win the Nobel Prize?'',
            Button button_label ''primary'']"
proof -
  have run: "main w =
      (form @ [CallModel (text_input w) (text_area w),
               Error (''Error processing your question: '' @ exn_str e)] @ footer,
       Finished)"
    using assms by (simp add: main_loaded on_button_raise)
  then show ?thesis
    by (simp add: form_facts footer_facts)
qed

text \<open>The pipeline runs out of memory: the message is shown and the run ends normally.\<close>

theorem extraction_failure_is_inline_witness:
  "Error ''Error processing your question: CUDA out of memory'' \<in> set (fst (main
      (pressed (Inr (raising (Exn ''RuntimeError'' ''CUDA out of memory'')))
         default_context sample_question))) \<and>
   snd (main
      (pressed (Inr (raising (Exn ''RuntimeError'' ''CUDA out of memory'')))
         default_context sample_question)) = Finished"
  using extraction_failure_is_inline
      [of "pressed (Inr (raising (Exn ''RuntimeError'' ''CUDA out of memory'')))
             default_context sample_question"
          "raising (Exn ''RuntimeError'' ''CUDA out of memory'')"
          "Exn ''RuntimeError'' ''CUDA out of memory''"]
  by (simp add: sample_defs)

text \<open>
  Claim C7. When the pipeline returns a result with an answer and a score that the
  percent format \<^verbatim>\<open>.2%\<close> renders as \<open>txt\<close>, the page has exactly one metric: its label is
  \<^verbatim>\<open>Confidence\<close> and its value is \<open>txt\<close>. For a float score that text is the interpreter's
  rendering of the score.
\<close>

theorem confidence_metric_is_percent:
  assumes "pipeline w ''question-answering'' ''deepset/bert-base-cased-squad2'' = Inr qa"
    and "button w" and "text_area w \<noteq> []" and "text_input w \<noteq> []"
    and "qa (text_input w) (text_area w) = Inr result"
    and "result ''answer'' = Some a" and "result ''score'' = Some v"
    and "format_percent w v = Inr txt"
  shows "filter is_metric (fst (main w)) = [Metric ''Confidence'' txt] \<and>
         (\<forall>c. v = PyFloat c \<longrightarrow> txt = float_percent w c)"
proof -
  have "filter is_metric (on_button w qa (text_area w) (text_input w) form) =
      filter is_metric form @ [Metric ''Confidence'' txt]"
    using assms(3-8) by (rule on_button_score)
  then have "filter is_metric (fst (main w)) = [Metric ''Confidence'' txt]"
    using assms(1,2) by (simp add: main_loaded form_facts footer_facts)
  moreover have "\<forall>c. v = PyFloat c \<longrightarrow> txt = float_percent w c"
    using assms(8) by auto
  ultimately show ?thesis by simp
qed

text \<open>A score of 0.97 is shown as the metric \<^verbatim>\<open>Confidence\<close> with the value \<^verbatim>\<open>97.00%\<close>.\<close>

theorem confidence_metric_is_percent_witness:
  "filter is_metric (fst (main
      (pressed (Inr (returning (sample_result (Fin (97 / 100))))) default_context sample_question)))
   = [Metric ''Confidence'' ''97.00%'']"
  using confidence_metric_is_percent
      [of "pressed (Inr (returning (sample_result (Fin (97 / 100))))) default_context sample_question"
          "returning (sample_result (Fin (97 / 100)))" "sample_result (Fin (97 / 100))"
          "PyStr ''1921''" "PyFloat (Fin (97 / 100))" "''97.00%''"]
  by (simp add: sample_defs)

text \<open>
  Claim C8. When the result of the pipeline has an answer and no \<^verbatim>\<open>score\<close> key, the
  confidence is the default 0, the metric shows \<^verbatim>\<open>0.00%\<close>, the low-confidence warning
  follows it, and the handler does not fail: no error is on the page and the run ends
  normally.
\<close>

theorem missing_score_defaults_to_zero:
  assumes "pipeline w ''question-answering'' ''deepset/bert-base-cased-squad2'' = Inr qa"
    and "button w" and "text_area w \<noteq> []" and "text_input w \<noteq> []"
    and "qa (text_input w) (text_area w) = Inr result"
    and "result ''answer'' = Some a" and "result ''score'' = None"
  shows "get_default result ''score'' (PyInt 0) = PyInt 0 \<and>
         main w =
           (form @ [CallModel (text_input w) (text_area w), Subheader answer_subheader,
                    Success a, Metric ''Confidence'' ''0.00%'',
                    Warning low_confidence_warning] @ footer,
            Finished) \<and>
         filter is_error (fst (main w)) = []"
proof -
  have run: "main w =
      (form @ [CallModel (text_input w) (text_area w), Subheader answer_subheader,
               Success a, Metric ''Confidence'' ''0.00%'',
               Warning low_confidence_warning] @ footer,
       Finished)"
    using assms by (simp add: main_loaded on_button_no_score)
  have "get_default result ''score'' (PyInt 0) = PyInt 0"
    using assms(7) by (simp add: get_default_def)
  with run show ?thesis
    by (simp add: form_facts footer_facts)
qed

text \<open>A result that holds an answer only.\<close>

theorem missing_score_defaults_to_zero_witness:
  "main (pressed (Inr (returning [''answer'' \<mapsto> PyStr ''1921''])) default_context
      sample_question) =
     (form @ [CallModel sample_question default_context, Subheader answer_subheader,
              Success (PyStr ''1921''), Metric ''Confidence'' ''0.00%'',
              Warning low_confidence_warning] @ footer,
      Finished)"
  using missing_score_defaults_to_zero
      [of "pressed (Inr (returning [''answer'' \<mapsto> PyStr ''1921''])) default_context
             sample_question"
          "returning [''answer'' \<mapsto> PyStr ''1921'']" "[''answer'' \<mapsto> PyStr ''1921'']"
          "PyStr ''1921''"]
  by (simp add: sample_defs)

text \<open>
  Claim C9. When the pipeline returns a result with an answer and a float score, the
  answer and the confidence metric are on the page whatever the score is; the handler's
  output is the call, the subheader, the answer and the metric, followed by the
  low-confidence warning when the score is below 0.5, so the warning comes after the
  answer and the metric and replaces neither.
\<close>

theorem answer_and_metric_unconditional:
  assumes "pipeline w ''question-answering'' ''deepset/bert-base-cased-squad2'' = Inr qa"
    and "button w" and "text_area w \<noteq> []" and "text_input w \<noteq> []"
    and "qa (text_input w) (text_area w) = Inr result"
    and "result ''answer'' = Some a" and "result ''score'' = Some (PyFloat c)"
  shows "Success a \<in> set (fst (main w)) \<and>
         Metric ''Confidence'' (float_percent w c) \<in> set (fst (main w)) \<and>
         filter is_handler_output (fst (main w)) =
           [CallModel (text_input w) (text_area w), Subheader answer_subheader, Success a,
            Metric ''Confidence'' (float_percent w c)] @
           (if float_less c (Fin (1 / 2)) then [Warning low_confidence_warning] else [])"
proof -
  have page: "fst (main w) =
      form @ [CallModel (text_input w) (text_area w), Subheader answer_subheader, Success a,
              Metric ''Confidence'' (float_percent w c)] @
      (if float_less c (Fin (1 / 2)) then [Warning low_confidence_warning] else []) @ footer"
    using assms by (simp add: main_loaded on_button_float)
  show ?thesis
    by (simp add: page form_facts footer_facts)
qed

text \<open>With a score of 0.3 the answer and the metric are shown, and the warning after them.\<close>

theorem answer_and_metric_unconditional_witness:
  "filter is_handler_output (fst (main
      (pressed (Inr (returning (sample_result (Fin (3 / 10))))) default_context sample_question)))
   = [CallModel sample_question default_context, Subheader answer_subheader,
      Success (PyStr ''1921''), Metric ''Confidence'' ''30.00%'',
      Warning low_confidence_warning]"
  using answer_and_metric_unconditional
      [of "pressed (Inr (returning (sample_result (Fin (3 / 10))))) default_context sample_question"
          "returning (sample_result (Fin (3 / 10)))" "sample_result (Fin (3 / 10))"
          "PyStr ''1921''" "Fin (3 / 10)"]
  by (simp add: sample_defs)

text \<open>
  Claim C10. The check before the call is whether the strings are empty: on a button
  press with a non-empty context and a non-empty question of which one (or both) holds
  whitespace only, the pipeline is called, once, and the warning that asks for both is
  not shown.
\<close>

theorem whitespace_counts_as_provided:
  assumes "pipeline w ''question-answering'' ''deepset/bert-base-cased-squad2'' = Inr qa"
    and "button w" and "text_area w \<noteq> []" and "text_input w \<noteq> []"
    and "isspace (text_area w) \<or> isspace (text_input w)"
  shows "filter is_call (fst (main w)) = [CallModel (text_input w) (text_area w)] \<and>
         Warning provide_both_warning \<notin> set (fst (main w))"
proof -
  have "Warning provide_both_warning \<notin> set form"
    by (simp add: form_def)
  then have "Warning provide_both_warning \<notin>
      set (on_button w qa (text_area w) (text_input w) form)"
    using assms(3,4) by (simp add: on_button_no_provide_warning)
  moreover have "Warning provide_both_warning \<notin> set footer"
    by (simp add: footer_def)
  ultimately have "Warning provide_both_warning \<notin> set (fst (main w))"
    using assms(1,2) by (simp add: main_loaded)
  moreover have "filter is_call (fst (main w)) = [CallModel (text_input w) (text_area w)]"
    using assms(1-4) by (simp add: main_loaded on_button_calls form_facts footer_facts)
  ultimately show ?thesis by simp
qed

text \<open>A context and a question of one space each: the pipeline is called with them.\<close>

theorem whitespace_counts_as_provided_witness:
  "isspace '' '' \<and>
   filter is_call (fst (main
      (pressed (Inr (returning (sample_result (Fin (3 / 10))))) '' '' '' ''))) =
     [CallModel '' '' '' ''] \<and>
   Warning provide_both_warning \<notin> set (fst (main
      (pressed (Inr (returning (sample_result (Fin (3 / 10))))) '' '' '' '')))"
  using whitespace_counts_as_provided
      [of "pressed (Inr (returning (sample_result (Fin (3 / 10))))) '' '' '' ''"
          "returning (sample_result (Fin (3 / 10)))"]
  by (simp add: sample_defs isspace_def whitespace_def)

end
